theory Spec2Isabelle
  imports Main "HOL-Library.Sublist" "HOL-Library.Multiset"
begin

section \<open>StatisticsGen component construction\<close>

text \<open>
  The development embeds \<^verbatim>\<open>StatisticsGen.__init__\<close> of
  \<^verbatim>\<open>tfx/components/statistics_gen/component.py\<close> (lines 54 to 110).

  The constructor resolves the deprecated \<^verbatim>\<open>input_data\<close> alias, builds a default
  output channel when none is given, serialises the options object and assembles the
  keyword arguments of \<^verbatim>\<open>StatisticsGenSpec\<close>.

  The default output channel is derived with a loop that removes names from a Python list
  while iterating over that same list, and the list is the one held by the input artifact.
  Both facts are visible only with a store of list objects, so the split-name sequence of
  an artifact is a reference into such a store.
\<close>

subsection \<open>Data model\<close>

text \<open>A reference to a Python list object holding split names.\<close>

type_synonym ref = nat

text \<open>
  Modelled from the spec: the \<^verbatim>\<open>Artifact\<close> class (tfx.types) is not part of the sources.
  The spec describes an artifact as a typed descriptor exposing a mutable \<^verbatim>\<open>split_names\<close>
  attribute, an ordered sequence of strings. The attribute is taken to be a plain Python
  attribute: reading it yields the list object itself, assigning it stores a reference.
\<close>

record artifact =
  type_name :: string
  split_names :: ref

text \<open>
  Modelled from the spec: the \<^verbatim>\<open>Channel\<close> class (tfx.types) is not part of the sources.
  A channel is a typed handle to a collection of artifacts; \<^verbatim>\<open>get()\<close> returns that
  collection. A channel object defines no truth value of its own, so in a condition it is
  true exactly when it is not \<^verbatim>\<open>None\<close>; an optional channel is an \<open>option\<close>.
\<close>

record channel =
  channel_type :: string
  artifacts :: "artifact list"

definition get :: "channel \<Rightarrow> artifact list" where
  "get c = artifacts c"

text \<open>
  The interpreter state the constructor can touch: the store of split-name list objects
  and the warnings written through \<^verbatim>\<open>absl.logging.warning\<close>, oldest first.
\<close>

record py_state =
  heap :: "ref \<Rightarrow> string list"
  warnings :: "string list"

text \<open>
  The two ways the constructor can raise: the cardinality error of
  \<^verbatim>\<open>get_single_instance\<close>, and the attribute error of calling \<^verbatim>\<open>get\<close> on
  \<^verbatim>\<open>None\<close> when no examples channel was passed at all.
\<close>

datatype error = CardinalityError | AttributeError

text \<open>
  The keyword arguments handed to \<^verbatim>\<open>StatisticsGenSpec\<close> (lines 104 to 109). The class
  itself is outside the sources; the record holds what the constructor passes to it.
\<close>

record spec =
  examples :: "channel option"
  schema :: "channel option"
  stats_options_json :: "string option"
  exclude_splits :: "string list option"
  statistics :: channel

text \<open>
  The parameters of \<^verbatim>\<open>__init__\<close> (lines 54 to 61). \<^verbatim>\<open>StatsOptions\<close> belongs to an
  external library and is a type parameter.
\<close>

record 'o init_args =
  arg_examples :: "channel option"
  arg_schema :: "channel option"
  arg_stats_options :: "'o option"
  arg_exclude_splits :: "string list option"
  arg_output :: "channel option"
  arg_input_data :: "channel option"
  arg_instance_name :: "string option"

subsection \<open>The exclusion loop (lines 95 to 97)\<close>

text \<open>
  The loop condition \<^verbatim>\<open>exclude_splits and split in exclude_splits\<close>: an absent or empty
  exclusion list is false, otherwise membership decides.
\<close>

fun excluded :: "string list option \<Rightarrow> string \<Rightarrow> bool" where
  "excluded None split = False"
| "excluded (Some E) split = (E \<noteq> [] \<and> split \<in> set E)"

text \<open>
  \<^verbatim>\<open>for split in split_names: if ...: split_names.remove(split)\<close>.

  A Python list iterator keeps an index \<open>i\<close>. Each round it stops when \<open>i\<close> has reached
  the current length of the list, and otherwise yields the element at \<open>i\<close> and advances.
  \<^verbatim>\<open>remove\<close> deletes the first occurrence of the value from the list object at \<open>r\<close>,
  in place, while the iterator keeps its index. The value is in the list, having just been
  read from it, so \<^verbatim>\<open>remove\<close> cannot raise.

  The exclusion list is only read. It is passed as a value, which takes it to be another
  object than the list the loop works on.
\<close>

function exclude_loop ::
  "string list option \<Rightarrow> ref \<Rightarrow> nat \<Rightarrow> (ref \<Rightarrow> string list) \<Rightarrow> (ref \<Rightarrow> string list)" where
  "exclude_loop E r i h =
     (if length (h r) \<le> i then h
      else if excluded E (h r ! i)
        then exclude_loop E r (Suc i) (h(r := remove1 (h r ! i) (h r)))
        else exclude_loop E r (Suc i) h)"
  by pat_completeness auto
termination
  by (relation "measure (\<lambda>(E, r, i, h). length (h r) - i)") (auto simp: length_remove1)

declare exclude_loop.simps [simp del]

subsection \<open>The constructor\<close>

text \<open>
  Modelled from the spec: \<^verbatim>\<open>artifact_utils.get_single_instance\<close> is not part of the
  sources. It returns the only artifact of the collection and fails with a cardinality
  error if the collection does not contain exactly one artifact.
\<close>

fun get_single_instance :: "artifact list \<Rightarrow> error + artifact" where
  "get_single_instance [a] = Inr a"
| "get_single_instance _ = Inl CardinalityError"

definition deprecation_warning :: string where
  "deprecation_warning = ''The \"input_data\" argument to the StatisticsGen component has been renamed to \"examples\" and is deprecated. Please update your usage as support for this argument will be removed soon.''"

text \<open>
  Lines 85 to 90: when \<^verbatim>\<open>input_data\<close> is given, log the warning and rebind
  \<^verbatim>\<open>examples\<close>. The result is the value of \<^verbatim>\<open>examples\<close> afterwards.
\<close>

definition resolve_alias ::
  "channel option \<Rightarrow> channel option \<Rightarrow> py_state \<Rightarrow> channel option \<times> py_state" where
  "resolve_alias examples0 input_data st =
     (case input_data of
        Some c \<Rightarrow> (Some c, st\<lparr>warnings := warnings st @ [deprecation_warning]\<rparr>)
      | None \<Rightarrow> (examples0, st))"

text \<open>
  Lines 91 to 101. With an output channel given nothing happens. Otherwise the single
  artifact of the examples channel is read, the exclusion loop runs on the list object its
  \<^verbatim>\<open>split_names\<close> attribute refers to, and the new \<^verbatim>\<open>ExampleStatistics\<close> artifact,
  whose attribute is assigned that same object, is wrapped in a new channel. The new
  artifact is created on line 92, before the channel is inspected, but nothing can refer
  to it until it is in the channel, so it appears here only with its attribute set. An
  exception leaves the state as it was when it was raised.
\<close>

definition default_output ::
  "channel option \<Rightarrow> string list option \<Rightarrow> channel option \<Rightarrow> py_state
   \<Rightarrow> (error + channel) \<times> py_state" where
  "default_output examples1 E output st =
     (case output of
        Some c \<Rightarrow> (Inr c, st)
      | None \<Rightarrow>
         (case examples1 of
            None \<Rightarrow> (Inl AttributeError, st)
          | Some ex \<Rightarrow>
             (case get_single_instance (get ex) of
                Inl e \<Rightarrow> (Inl e, st)
              | Inr a \<Rightarrow>
                 (Inr \<lparr>channel_type = ''ExampleStatistics'',
                       artifacts = [\<lparr>type_name = ''ExampleStatistics'',
                                     split_names = split_names a\<rparr>]\<rparr>,
                  st\<lparr>heap := exclude_loop E (split_names a) 0 (heap st)\<rparr>))))"

text \<open>
  The whole constructor. \<open>to_json\<close> stands for \<^verbatim>\<open>StatsOptions.to_json\<close>. An options
  object, like a channel, is true in a condition exactly when it is not \<^verbatim>\<open>None\<close>.
  The result is what line 110 hands to the base class: the assembled spec and the instance
  name. What the base class and \<^verbatim>\<open>StatisticsGenSpec\<close> do with them is outside the sources.
\<close>

definition StatisticsGen_init ::
  "('o \<Rightarrow> string) \<Rightarrow> 'o init_args \<Rightarrow> py_state
   \<Rightarrow> (error + spec \<times> string option) \<times> py_state" where
  "StatisticsGen_init to_json a st =
     (let (examples1, st1) = resolve_alias (arg_examples a) (arg_input_data a) st;
          (res, st2) = default_output examples1 (arg_exclude_splits a) (arg_output a) st1
      in case res of
           Inl e \<Rightarrow> (Inl e, st2)
         | Inr out \<Rightarrow>
            (Inr (\<lparr>examples = examples1,
                   schema = arg_schema a,
                   stats_options_json =
                     (case arg_stats_options a of None \<Rightarrow> None | Some so \<Rightarrow> Some (to_json so)),
                   exclude_splits = arg_exclude_splits a,
                   statistics = out\<rparr>,
                  arg_instance_name a),
             st2))"

text \<open>
  Reading the \<^verbatim>\<open>split_names\<close> attribute of an artifact in a state, and of every artifact
  of a channel.
\<close>

definition split_names_of :: "py_state \<Rightarrow> artifact \<Rightarrow> string list" where
  "split_names_of st a = heap st (split_names a)"

definition channel_split_names :: "py_state \<Rightarrow> channel \<Rightarrow> string list list" where
  "channel_split_names st c = map (split_names_of st) (artifacts c)"

text \<open>
  What a run of the constructor leaves as the split names of the artifacts of the
  \<^verbatim>\<open>statistics\<close> channel of the assembled spec, read in the final state; \<open>None\<close> when
  the constructor raised.
\<close>

definition output_split_names ::
  "(error + spec \<times> string option) \<times> py_state \<Rightarrow> string list list option" where
  "output_split_names run =
     (case fst run of
        Inl e \<Rightarrow> None
      | Inr (sp, nm) \<Rightarrow> Some (channel_split_names (snd run) (statistics sp)))"

text \<open>
  The defaults of the signature (lines 55 to 61): every parameter is \<^verbatim>\<open>None\<close>.
\<close>

definition default_args :: "'o init_args" where
  "default_args =
     \<lparr>arg_examples = None, arg_schema = None, arg_stats_options = None,
      arg_exclude_splits = None, arg_output = None, arg_input_data = None,
      arg_instance_name = None\<rparr>"

text \<open>
  Concrete inputs for the examples below: a channel of \<open>n\<close> example artifacts that all
  refer to the list object at \<open>r\<close>, and a state whose only non-empty list object is the
  one at \<open>r\<close>.
\<close>

definition examples_channel :: "nat \<Rightarrow> ref \<Rightarrow> channel" where
  "examples_channel n r =
     \<lparr>channel_type = ''Examples'',
      artifacts = replicate n \<lparr>type_name = ''Examples'', split_names = r\<rparr>\<rparr>"

definition state_with :: "ref \<Rightarrow> string list \<Rightarrow> py_state" where
  "state_with r S = \<lparr>heap = (\<lambda>_. [])(r := S), warnings = []\<rparr>"

section \<open>Properties of the exclusion loop\<close>

lemma exclude_loop_stop: "length (h r) \<le> i \<Longrightarrow> exclude_loop E r i h = h"
  by (subst exclude_loop.simps) simp

lemma exclude_loop_remove:
  "\<not> length (h r) \<le> i \<Longrightarrow> excluded E (h r ! i) \<Longrightarrow>
   exclude_loop E r i h = exclude_loop E r (Suc i) (h(r := remove1 (h r ! i) (h r)))"
  by (subst exclude_loop.simps) simp

lemma exclude_loop_keep:
  "\<not> length (h r) \<le> i \<Longrightarrow> \<not> excluded E (h r ! i) \<Longrightarrow>
   exclude_loop E r i h = exclude_loop E r (Suc i) h"
  by (subst exclude_loop.simps) simp

text \<open>The loop writes to no list object but the one it iterates over.\<close>

lemma exclude_loop_other: "r' \<noteq> r \<Longrightarrow> exclude_loop E r i h r' = h r'"
proof (induction E r i h rule: exclude_loop.induct)
  case (1 E r i h)
  consider (stop) "length (h r) \<le> i"
    | (remove) "\<not> length (h r) \<le> i" "excluded E (h r ! i)"
    | (keep) "\<not> length (h r) \<le> i" "\<not> excluded E (h r ! i)"
    by blast
  then show ?case
  proof cases
    case stop
    then show ?thesis by (simp add: exclude_loop_stop)
  next
    case remove
    let ?h = "h(r := remove1 (h r ! i) (h r))"
    have "exclude_loop E r i h r' = exclude_loop E r (Suc i) ?h r'"
      by (simp only: exclude_loop_remove [of h r i E, OF remove])
    also have "\<dots> = ?h r'"
      by (rule "1.IH"(1) [OF remove "1.prems"])
    also have "\<dots> = h r'"
      using "1.prems" by simp
    finally show ?thesis .
  next
    case keep
    have "exclude_loop E r i h r' = exclude_loop E r (Suc i) h r'"
      by (simp only: exclude_loop_keep [of h r i E, OF keep])
    also have "\<dots> = h r'"
      by (rule "1.IH"(2) [OF keep "1.prems"])
    finally show ?thesis .
  qed
qed

text \<open>With no name of the list excluded, the loop changes nothing.\<close>

lemma exclude_loop_no_match:
  "\<forall>x \<in> set (h r). \<not> excluded E x \<Longrightarrow> exclude_loop E r i h = h"
proof (induction E r i h rule: exclude_loop.induct)
  case (1 E r i h)
  show ?case
  proof (cases "length (h r) \<le> i")
    case True
    then show ?thesis by (simp add: exclude_loop_stop)
  next
    case False
    then have k: "\<not> excluded E (h r ! i)" using "1.prems" by simp
    have "exclude_loop E r i h = exclude_loop E r (Suc i) h"
      by (rule exclude_loop_keep [of h r i E, OF False k])
    also have "\<dots> = h"
      by (rule "1.IH"(2) [OF False k "1.prems"])
    finally show ?thesis .
  qed
qed

lemma subseq_remove1: "subseq (remove1 x xs) xs"
  by (induction xs) auto

lemma subseq_of_remove1: "subseq R (remove1 x xs) \<Longrightarrow> subseq R xs"
  by (rule subseq_order.trans [OF _ subseq_remove1])

lemma removed_one:
  assumes "\<forall>y \<in># mset (remove1 x xs) - mset R. P y" and "P x"
  shows "\<forall>y \<in># mset xs - mset R. P y"
proof
  fix y
  assume y: "y \<in># mset xs - mset R"
  show "P y"
  proof (cases "y = x")
    case True
    then show ?thesis using assms(2) by simp
  next
    case False
    have "count (mset (remove1 x xs) - mset R) y = count (mset xs - mset R) y"
      using False by simp
    then have "y \<in># mset (remove1 x xs) - mset R"
      using y by (simp only: count_greater_zero_iff [symmetric])
    then show ?thesis using assms(1) by blast
  qed
qed

lemma absent_in_diff:
  assumes "x \<in> set S" and "x \<notin> set R"
  shows "x \<in># mset S - mset R"
proof -
  have "count (mset R) x = 0"
    using assms(2) by simp
  moreover have "0 < count (mset S) x"
    using assms(1) by simp
  ultimately have "count (mset R) x < count (mset S) x"
    by (simp only:)
  then show ?thesis
    by (simp only: in_diff_count)
qed

text \<open>What the loop leaves is a subsequence of what it started from.\<close>

lemma exclude_loop_subseq: "subseq (exclude_loop E r i h r) (h r)"
proof (induction E r i h rule: exclude_loop.induct)
  case (1 E r i h)
  consider (stop) "length (h r) \<le> i"
    | (remove) "\<not> length (h r) \<le> i" "excluded E (h r ! i)"
    | (keep) "\<not> length (h r) \<le> i" "\<not> excluded E (h r ! i)"
    by blast
  then show ?case
  proof cases
    case stop
    then show ?thesis by (simp add: exclude_loop_stop)
  next
    case remove
    let ?h = "h(r := remove1 (h r ! i) (h r))"
    have "subseq (exclude_loop E r (Suc i) ?h r) (?h r)"
      by (rule "1.IH"(1) [OF remove])
    moreover have "?h r = remove1 (h r ! i) (h r)"
      by simp
    ultimately have "subseq (exclude_loop E r (Suc i) ?h r) (remove1 (h r ! i) (h r))"
      by (simp only:)
    then have "subseq (exclude_loop E r (Suc i) ?h r) (h r)"
      by (rule subseq_of_remove1)
    then show ?thesis by (simp only: exclude_loop_remove [of h r i E, OF remove])
  next
    case keep
    show ?thesis using "1.IH"(2) [OF keep] by (simp only: exclude_loop_keep [of h r i E, OF keep])
  qed
qed

text \<open>Every occurrence the loop takes away is an occurrence of an excluded name.\<close>

lemma exclude_loop_removed:
  "\<forall>x \<in># mset (h r) - mset (exclude_loop E r i h r). excluded E x"
proof (induction E r i h rule: exclude_loop.induct)
  case (1 E r i h)
  consider (stop) "length (h r) \<le> i"
    | (remove) "\<not> length (h r) \<le> i" "excluded E (h r ! i)"
    | (keep) "\<not> length (h r) \<le> i" "\<not> excluded E (h r ! i)"
    by blast
  then show ?case
  proof cases
    case stop
    then show ?thesis by (simp add: exclude_loop_stop)
  next
    case remove
    let ?x = "h r ! i"
    let ?h = "h(r := remove1 ?x (h r))"
    let ?R = "exclude_loop E r (Suc i) ?h r"
    have "\<forall>x \<in># mset (?h r) - mset ?R. excluded E x"
      by (rule "1.IH"(1) [OF remove])
    moreover have "?h r = remove1 ?x (h r)"
      by simp
    ultimately have ih: "\<forall>x \<in># mset (remove1 ?x (h r)) - mset ?R. excluded E x"
      by (simp only:)
    have "\<forall>x \<in># mset (h r) - mset ?R. excluded E x"
      by (rule removed_one [OF ih remove(2)])
    then show ?thesis by (simp only: exclude_loop_remove [of h r i E, OF remove])
  next
    case keep
    show ?thesis using "1.IH"(2) [OF keep] by (simp only: exclude_loop_keep [of h r i E, OF keep])
  qed
qed

section \<open>The constructor, path by path\<close>

lemma resolve_alias_heap: "heap (snd (resolve_alias e i st)) = heap st"
  by (simp add: resolve_alias_def split: option.splits)

lemma resolve_alias_given:
  "resolve_alias e (Some c) st = (Some c, st\<lparr>warnings := warnings st @ [deprecation_warning]\<rparr>)"
  by (simp add: resolve_alias_def)

text \<open>An explicit output channel: the spec is assembled around it, whatever the examples are.\<close>

lemma init_explicit_output:
  assumes "arg_output a = Some c"
  shows "StatisticsGen_init to_json a st =
     (Inr (\<lparr>examples = fst (resolve_alias (arg_examples a) (arg_input_data a) st),
            schema = arg_schema a,
            stats_options_json = map_option to_json (arg_stats_options a),
            exclude_splits = arg_exclude_splits a,
            statistics = c\<rparr>,
           arg_instance_name a),
      snd (resolve_alias (arg_examples a) (arg_input_data a) st))"
  using assms
  by (simp add: StatisticsGen_init_def default_output_def map_option_case
           split: prod.splits)

text \<open>No output channel and exactly one example artifact: the derived channel.\<close>

lemma init_derived:
  assumes "arg_output a = None"
    and "fst (resolve_alias (arg_examples a) (arg_input_data a) st) = Some ex"
    and "get ex = [art]"
  shows "StatisticsGen_init to_json a st =
     (Inr (\<lparr>examples = Some ex,
            schema = arg_schema a,
            stats_options_json = map_option to_json (arg_stats_options a),
            exclude_splits = arg_exclude_splits a,
            statistics =
              \<lparr>channel_type = ''ExampleStatistics'',
               artifacts = [\<lparr>type_name = ''ExampleStatistics'',
                             split_names = split_names art\<rparr>]\<rparr>\<rparr>,
           arg_instance_name a),
      (snd (resolve_alias (arg_examples a) (arg_input_data a) st))
        \<lparr>heap := exclude_loop (arg_exclude_splits a) (split_names art) 0 (heap st)\<rparr>)"
proof -
  obtain e1 st1 where r: "resolve_alias (arg_examples a) (arg_input_data a) st = (e1, st1)"
    by (cases "resolve_alias (arg_examples a) (arg_input_data a) st")
  have e1: "e1 = Some ex"
    using assms(2) r by simp
  have h1: "heap st1 = heap st"
    using resolve_alias_heap [of "arg_examples a" "arg_input_data a" st] r by simp
  show ?thesis
    using assms(1,3)
    by (simp add: StatisticsGen_init_def default_output_def r e1 h1 map_option_case)
qed

text \<open>No output channel and a failing channel inspection: the error comes out as raised.\<close>

lemma init_inspection_error:
  assumes "arg_output a = None"
    and "fst (resolve_alias (arg_examples a) (arg_input_data a) st) = Some ex"
    and "get_single_instance (get ex) = Inl e"
  shows "StatisticsGen_init to_json a st =
     (Inl e, snd (resolve_alias (arg_examples a) (arg_input_data a) st))"
proof -
  obtain e1 st1 where r: "resolve_alias (arg_examples a) (arg_input_data a) st = (e1, st1)"
    by (cases "resolve_alias (arg_examples a) (arg_input_data a) st")
  have e1: "e1 = Some ex"
    using assms(2) r by simp
  show ?thesis
    using assms(1,3)
    by (simp add: StatisticsGen_init_def default_output_def r e1)
qed

lemma get_single_instance_one: "get_single_instance xs = Inr x \<longleftrightarrow> xs = [x]"
  by (cases xs rule: get_single_instance.cases) auto

lemma get_single_instance_error:
  "(\<exists>e. get_single_instance xs = Inl e) \<longleftrightarrow> length xs \<noteq> 1"
  by (cases xs rule: get_single_instance.cases) auto

text \<open>The split names the derived channel shows are those the loop leaves at the shared list.\<close>

lemma output_split_names_derived:
  assumes "arg_output a = None"
    and "fst (resolve_alias (arg_examples a) (arg_input_data a) st) = Some ex"
    and "get ex = [art]"
  shows "output_split_names (StatisticsGen_init to_json a st) =
     Some [exclude_loop (arg_exclude_splits a) (split_names art) 0 (heap st) (split_names art)]"
  by (simp add: init_derived [OF assms] output_split_names_def channel_split_names_def
        split_names_of_def)

text \<open>The warnings of a run are those of the alias step, on every path.\<close>

lemma init_warnings:
  "warnings (snd (StatisticsGen_init to_json a st)) =
   warnings (snd (resolve_alias (arg_examples a) (arg_input_data a) st))"
  by (simp add: StatisticsGen_init_def default_output_def
        split: prod.splits option.splits sum.splits)

text \<open>A run that returns has assembled the spec from the arguments.\<close>

lemma init_success:
  assumes "fst (StatisticsGen_init to_json a st) = Inr (sp, nm)"
  shows "sp = \<lparr>examples = fst (resolve_alias (arg_examples a) (arg_input_data a) st),
               schema = arg_schema a,
               stats_options_json = map_option to_json (arg_stats_options a),
               exclude_splits = arg_exclude_splits a,
               statistics = statistics sp\<rparr>"
    and "nm = arg_instance_name a"
  using assms
  by (auto simp: StatisticsGen_init_def map_option_case split: prod.splits sum.splits)

text \<open>A run can only fail while deriving the output channel.\<close>

lemma init_failure:
  assumes "fst (StatisticsGen_init to_json a st) = Inl e"
  shows "arg_output a = None"
  using assms
  by (cases "arg_output a") (simp_all add: init_explicit_output)

text \<open>No output channel and no examples channel at all: the attribute error.\<close>

lemma init_no_examples:
  assumes "arg_output a = None"
    and "fst (resolve_alias (arg_examples a) (arg_input_data a) st) = None"
  shows "StatisticsGen_init to_json a st =
     (Inl AttributeError, snd (resolve_alias (arg_examples a) (arg_input_data a) st))"
proof -
  obtain e1 st1 where r: "resolve_alias (arg_examples a) (arg_input_data a) st = (e1, st1)"
    by (cases "resolve_alias (arg_examples a) (arg_input_data a) st")
  have e1: "e1 = None"
    using assms(2) r by simp
  show ?thesis
    using assms(1)
    by (simp add: StatisticsGen_init_def default_output_def r e1)
qed

text \<open>The paths of a call that passes \<^verbatim>\<open>input_data\<close>.\<close>

lemma init_result_with_alias:
  assumes "arg_input_data a = Some c"
  shows "warnings (snd (StatisticsGen_init to_json a st)) = warnings st @ [deprecation_warning]"
    and "fst (StatisticsGen_init to_json a st) = Inr (sp, nm) \<Longrightarrow> examples sp = Some c"
    and "(\<exists>sp. fst (StatisticsGen_init to_json a st) = Inr (sp, arg_instance_name a))
           \<longleftrightarrow> arg_output a \<noteq> None \<or> length (get c) = 1"
    and "arg_output a = None \<Longrightarrow> length (get c) \<noteq> 1 \<Longrightarrow>
           fst (StatisticsGen_init to_json a st) = Inl CardinalityError"
proof -
  let ?run = "StatisticsGen_init to_json a st"
  have r: "resolve_alias (arg_examples a) (arg_input_data a) st
           = (Some c, st\<lparr>warnings := warnings st @ [deprecation_warning]\<rparr>)"
    by (simp only: assms resolve_alias_given)
  have r1: "fst (resolve_alias (arg_examples a) (arg_input_data a) st) = Some c"
    by (simp add: r)
  show "warnings (snd ?run) = warnings st @ [deprecation_warning]"
    by (simp add: init_warnings r)
  show "examples sp = Some c" if "fst ?run = Inr (sp, nm)"
    using init_success(1) [OF that] r1 by (metis spec.select_convs(1))
  have fail: "fst ?run = Inl CardinalityError"
    if out: "arg_output a = None" and len: "length (get c) \<noteq> 1"
  proof -
    obtain e where e: "get_single_instance (get c) = Inl e"
      using len get_single_instance_error [of "get c"] by blast
    then have "e = CardinalityError"
      by (cases e) (auto elim: get_single_instance.elims)
    then show ?thesis
      using init_inspection_error [OF out r1 e, of to_json] by simp
  qed
  then show "arg_output a = None \<Longrightarrow> length (get c) \<noteq> 1 \<Longrightarrow>
             fst ?run = Inl CardinalityError" .
  show "(\<exists>sp. fst ?run = Inr (sp, arg_instance_name a))
          \<longleftrightarrow> arg_output a \<noteq> None \<or> length (get c) = 1"
  proof (cases "arg_output a")
    case (Some out)
    then show ?thesis
      by (simp add: init_explicit_output [OF Some])
  next
    case None
    show ?thesis
    proof (cases "length (get c) = 1")
      case True
      then obtain art where one: "get c = [art]"
        by (cases "get c") auto
      show ?thesis
        using True None by (simp add: init_derived [OF None r1 one])
    next
      case False
      then show ?thesis
        using None fail [OF None False] by simp
    qed
  qed
qed

section \<open>The claims\<close>

text \<open>
  In the theorems below \<open>a\<close> holds the arguments of the call and \<open>st\<close> the state before
  it. "The examples channel" is the value of \<^verbatim>\<open>examples\<close> after the alias has been
  resolved, \<open>ex\<close>; its single artifact is \<open>art\<close>, and \<open>S\<close> is the split-name sequence of
  that artifact before the call.
\<close>

text \<open>
  C8: with one example artifact whose split names are train, eval, test, the exclusion
  list holding test alone, and no output channel given, the artifact of the derived
  statistics channel has the split names train, eval.
\<close>

theorem three_splits_exclude_test:
  assumes "arg_output a = None"
    and "fst (resolve_alias (arg_examples a) (arg_input_data a) st) = Some ex"
    and "get ex = [art]"
    and "split_names_of st art = [''train'', ''eval'', ''test'']"
    and "arg_exclude_splits a = Some [''test'']"
  shows "output_split_names (StatisticsGen_init to_json a st) = Some [[''train'', ''eval'']]"
proof -
  have S: "heap st (split_names art) = [''train'', ''eval'', ''test'']"
    using assms(4) by (simp add: split_names_of_def)
  have "exclude_loop (Some [''test'']) (split_names art) 0 (heap st) (split_names art)
        = [''train'', ''eval'']"
    by (simp add: exclude_loop.simps S)
  then show ?thesis
    by (simp add: output_split_names_derived [OF assms(1,2,3)] assms(5))
qed

theorem three_splits_exclude_test_witness:
  "arg_output (default_args\<lparr>arg_examples := Some (examples_channel 1 0),
                            arg_exclude_splits := Some [''test'']\<rparr> :: string init_args) = None
   \<and> fst (resolve_alias (Some (examples_channel 1 0)) None
            (state_with 0 [''train'', ''eval'', ''test''])) = Some (examples_channel 1 0)
   \<and> get (examples_channel 1 0) = [\<lparr>type_name = ''Examples'', split_names = 0\<rparr>]
   \<and> split_names_of (state_with 0 [''train'', ''eval'', ''test''])
        \<lparr>type_name = ''Examples'', split_names = 0\<rparr> = [''train'', ''eval'', ''test'']
   \<and> output_split_names
        (StatisticsGen_init (\<lambda>s. s)
          (default_args\<lparr>arg_examples := Some (examples_channel 1 0),
                        arg_exclude_splits := Some [''test'']\<rparr>)
          (state_with 0 [''train'', ''eval'', ''test''])) = Some [[''train'', ''eval'']]"
proof -
  let ?a = "default_args\<lparr>arg_examples := Some (examples_channel 1 0),
                         arg_exclude_splits := Some [''test'']\<rparr> :: string init_args"
  let ?st = "state_with 0 [''train'', ''eval'', ''test'']"
  let ?art = "\<lparr>type_name = ''Examples'', split_names = 0\<rparr>"
  have h1: "arg_output ?a = None"
    by (simp add: default_args_def)
  have h2: "fst (resolve_alias (arg_examples ?a) (arg_input_data ?a) ?st)
            = Some (examples_channel 1 0)"
    by (simp add: default_args_def resolve_alias_def)
  have h3: "get (examples_channel 1 0) = [?art]"
    by (simp add: get_def examples_channel_def)
  have h4: "split_names_of ?st ?art = [''train'', ''eval'', ''test'']"
    by (simp add: split_names_of_def state_with_def)
  have h5: "arg_exclude_splits ?a = Some [''test'']"
    by simp
  show ?thesis
    using three_splits_exclude_test [OF h1 h2 h3 h4 h5] h1 h2 h3 h4
    by (simp add: default_args_def)
qed


text \<open>
  C7: with no output channel given, if the exclusion list is empty, or holds only names
  that do not occur in \<open>S\<close> (or is absent), the derived output split names are \<open>S\<close>,
  unchanged.
\<close>

theorem no_matching_exclusion_unchanged:
  assumes "arg_output a = None"
    and "fst (resolve_alias (arg_examples a) (arg_input_data a) st) = Some ex"
    and "get ex = [art]"
    and "split_names_of st art = S"
    and "\<forall>E. arg_exclude_splits a = Some E \<longrightarrow> set E \<inter> set S = {}"
  shows "output_split_names (StatisticsGen_init to_json a st) = Some [S]"
proof -
  have S: "heap st (split_names art) = S"
    using assms(4) by (simp add: split_names_of_def)
  have "\<forall>x \<in> set (heap st (split_names art)). \<not> excluded (arg_exclude_splits a) x"
  proof (cases "arg_exclude_splits a")
    case None
    then show ?thesis by simp
  next
    case (Some E)
    then have "set E \<inter> set S = {}"
      using assms(5) by simp
    then show ?thesis
      using Some S by auto
  qed
  then have "exclude_loop (arg_exclude_splits a) (split_names art) 0 (heap st) = heap st"
    by (rule exclude_loop_no_match)
  then show ?thesis
    by (simp add: output_split_names_derived [OF assms(1,2,3)] S)
qed

theorem no_matching_exclusion_unchanged_witness:
  "arg_output (default_args\<lparr>arg_examples := Some (examples_channel 1 0),
                            arg_exclude_splits := Some [''holdout'']\<rparr> :: string init_args) = None
   \<and> get (examples_channel 1 0) = [\<lparr>type_name = ''Examples'', split_names = 0\<rparr>]
   \<and> set [''holdout''] \<inter> set [''train'', ''eval''] = {}
   \<and> output_split_names
        (StatisticsGen_init (\<lambda>s. s)
          (default_args\<lparr>arg_examples := Some (examples_channel 1 0),
                        arg_exclude_splits := Some [''holdout'']\<rparr>)
          (state_with 0 [''train'', ''eval''])) = Some [[''train'', ''eval'']]
   \<and> output_split_names
        (StatisticsGen_init (\<lambda>s. s)
          (default_args\<lparr>arg_examples := Some (examples_channel 1 0),
                        arg_exclude_splits := Some []\<rparr>)
          (state_with 0 [''train'', ''eval''])) = Some [[''train'', ''eval'']]"
proof -
  let ?a = "default_args\<lparr>arg_examples := Some (examples_channel 1 0),
                         arg_exclude_splits := Some [''holdout'']\<rparr> :: string init_args"
  let ?b = "default_args\<lparr>arg_examples := Some (examples_channel 1 0),
                         arg_exclude_splits := Some []\<rparr> :: string init_args"
  let ?st = "state_with 0 [''train'', ''eval'']"
  let ?art = "\<lparr>type_name = ''Examples'', split_names = 0\<rparr>"
  have a1: "arg_output ?a = None" and b1: "arg_output ?b = None"
    by (simp_all add: default_args_def)
  have a2: "fst (resolve_alias (arg_examples ?a) (arg_input_data ?a) ?st)
            = Some (examples_channel 1 0)"
    and b2: "fst (resolve_alias (arg_examples ?b) (arg_input_data ?b) ?st)
            = Some (examples_channel 1 0)"
    by (simp_all add: default_args_def resolve_alias_def)
  have h3: "get (examples_channel 1 0) = [?art]"
    by (simp add: get_def examples_channel_def)
  have h4: "split_names_of ?st ?art = [''train'', ''eval'']"
    by (simp add: split_names_of_def state_with_def)
  have a5: "\<forall>E. arg_exclude_splits ?a = Some E \<longrightarrow> set E \<inter> set [''train'', ''eval''] = {}"
    and b5: "\<forall>E. arg_exclude_splits ?b = Some E \<longrightarrow> set E \<inter> set [''train'', ''eval''] = {}"
    by simp_all
  have d: "set [''holdout''] \<inter> set [''train'', ''eval''] = {}"
    by simp
  show ?thesis
    using no_matching_exclusion_unchanged [OF a1 a2 h3 h4 a5]
      no_matching_exclusion_unchanged [OF b1 b2 h3 h4 b5] a1 h3 d
    by (simp add: default_args_def)
qed

text \<open>
  C10: with no output channel given, the derived output split names \<open>R\<close> are a
  subsequence of \<open>S\<close>, and every name of \<open>S\<close> that is absent from \<open>R\<close> is a member of
  the exclusion list. The last conjunct says the same of every single occurrence the loop
  removed: the loop never removes a name outside the exclusion list, also where it leaves
  excluded names behind.
\<close>

theorem derived_split_names_subsequence:
  assumes "arg_output a = None"
    and "fst (resolve_alias (arg_examples a) (arg_input_data a) st) = Some ex"
    and "get ex = [art]"
    and "split_names_of st art = S"
  shows "\<exists>R. output_split_names (StatisticsGen_init to_json a st) = Some [R]
           \<and> subseq R S
           \<and> (\<forall>x \<in> set S. x \<notin> set R \<longrightarrow>
                 (\<exists>E. arg_exclude_splits a = Some E \<and> x \<in> set E))
           \<and> (\<forall>x \<in># mset S - mset R.
                 (\<exists>E. arg_exclude_splits a = Some E \<and> x \<in> set E))"
proof -
  let ?r = "split_names art"
  let ?R = "exclude_loop (arg_exclude_splits a) ?r 0 (heap st) ?r"
  have S: "heap st ?r = S"
    using assms(4) by (simp add: split_names_of_def)
  have ex: "excluded (arg_exclude_splits a) x \<Longrightarrow>
            \<exists>E. arg_exclude_splits a = Some E \<and> x \<in> set E" for x
    by (cases "arg_exclude_splits a") simp_all
  have out: "output_split_names (StatisticsGen_init to_json a st) = Some [?R]"
    by (rule output_split_names_derived [OF assms(1,2,3)])
  have sub: "subseq ?R S"
    using exclude_loop_subseq [of "arg_exclude_splits a" ?r 0 "heap st"] by (simp only: S)
  have rem: "\<forall>x \<in># mset S - mset ?R. excluded (arg_exclude_splits a) x"
    using exclude_loop_removed [of "heap st" ?r "arg_exclude_splits a" 0] by (simp only: S)
  have occ: "\<forall>x \<in># mset S - mset ?R. \<exists>E. arg_exclude_splits a = Some E \<and> x \<in> set E"
  proof
    fix x
    assume "x \<in># mset S - mset ?R"
    with rem have "excluded (arg_exclude_splits a) x"
      by (rule bspec)
    then show "\<exists>E. arg_exclude_splits a = Some E \<and> x \<in> set E"
      by (rule ex)
  qed
  have absent: "\<forall>x \<in> set S. x \<notin> set ?R \<longrightarrow>
                  (\<exists>E. arg_exclude_splits a = Some E \<and> x \<in> set E)"
  proof (intro ballI impI)
    fix x
    assume "x \<in> set S" and "x \<notin> set ?R"
    then have "x \<in># mset S - mset ?R"
      by (rule absent_in_diff)
    with occ show "\<exists>E. arg_exclude_splits a = Some E \<and> x \<in> set E"
      by (rule bspec)
  qed
  show ?thesis
    by (rule exI [of _ ?R]) (intro conjI out sub absent occ)
qed


theorem derived_split_names_subsequence_witness:
  "arg_output (default_args\<lparr>arg_examples := Some (examples_channel 1 0),
                            arg_exclude_splits := Some [''eval'', ''test'']\<rparr> :: string init_args) = None
   \<and> get (examples_channel 1 0) = [\<lparr>type_name = ''Examples'', split_names = 0\<rparr>]
   \<and> split_names_of (state_with 0 [''train'', ''eval'', ''test''])
        \<lparr>type_name = ''Examples'', split_names = 0\<rparr> = [''train'', ''eval'', ''test'']
   \<and> (\<exists>R. output_split_names
          (StatisticsGen_init (\<lambda>s. s)
            (default_args\<lparr>arg_examples := Some (examples_channel 1 0),
                          arg_exclude_splits := Some [''eval'', ''test'']\<rparr>)
            (state_with 0 [''train'', ''eval'', ''test''])) = Some [R]
        \<and> subseq R [''train'', ''eval'', ''test'']
        \<and> (\<forall>x \<in> set [''train'', ''eval'', ''test'']. x \<notin> set R \<longrightarrow> x \<in> set [''eval'', ''test''])
        \<and> (\<forall>x \<in># mset [''train'', ''eval'', ''test''] - mset R. x \<in> set [''eval'', ''test'']))"
proof -
  let ?a = "default_args\<lparr>arg_examples := Some (examples_channel 1 0),
                         arg_exclude_splits := Some [''eval'', ''test'']\<rparr> :: string init_args"
  let ?st = "state_with 0 [''train'', ''eval'', ''test'']"
  let ?art = "\<lparr>type_name = ''Examples'', split_names = 0\<rparr>"
  have h1: "arg_output ?a = None"
    by (simp add: default_args_def)
  have h2: "fst (resolve_alias (arg_examples ?a) (arg_input_data ?a) ?st)
            = Some (examples_channel 1 0)"
    by (simp add: default_args_def resolve_alias_def)
  have h3: "get (examples_channel 1 0) = [?art]"
    by (simp add: get_def examples_channel_def)
  have h4: "split_names_of ?st ?art = [''train'', ''eval'', ''test'']"
    by (simp add: split_names_of_def state_with_def)
  have E: "arg_exclude_splits ?a = Some [''eval'', ''test'']"
    by simp
  have "\<exists>R. output_split_names (StatisticsGen_init (\<lambda>s. s) ?a ?st) = Some [R]
        \<and> subseq R [''train'', ''eval'', ''test'']
        \<and> (\<forall>x \<in> set [''train'', ''eval'', ''test'']. x \<notin> set R \<longrightarrow>
              (\<exists>E. arg_exclude_splits ?a = Some E \<and> x \<in> set E))
        \<and> (\<forall>x \<in># mset [''train'', ''eval'', ''test''] - mset R.
              (\<exists>E. arg_exclude_splits ?a = Some E \<and> x \<in> set E))"
    by (rule derived_split_names_subsequence [OF h1 h2 h3 h4])
  then have c: "\<exists>R. output_split_names (StatisticsGen_init (\<lambda>s. s) ?a ?st) = Some [R]
        \<and> subseq R [''train'', ''eval'', ''test'']
        \<and> (\<forall>x \<in> set [''train'', ''eval'', ''test'']. x \<notin> set R \<longrightarrow> x \<in> set [''eval'', ''test''])
        \<and> (\<forall>x \<in># mset [''train'', ''eval'', ''test''] - mset R. x \<in> set [''eval'', ''test''])"
    by (simp only: E option.inject simp_thms ex_simps)
  show ?thesis
    by (intro conjI h1 h3 h4 c)
qed

text \<open>
  C1: the claim is that the derived output split names are \<open>S\<close> with every excluded name
  removed. The loop does not achieve that. After it has removed the name at index \<open>i\<close>
  the rest of the list has moved one place down while the iterator moves one place up, so
  the name that followed is never looked at. With the splits train, eval, test and the
  exclusion list eval, test, the name test survives, where filtering leaves train alone.
\<close>

theorem exclusion_skips_the_next_name:
  "output_split_names
     (StatisticsGen_init (\<lambda>s. s)
        (default_args\<lparr>arg_examples := Some (examples_channel 1 0),
                      arg_exclude_splits := Some [''eval'', ''test'']\<rparr>)
        (state_with 0 [''train'', ''eval'', ''test''])) = Some [[''train'', ''test'']]
   \<and> filter (\<lambda>s. s \<notin> set [''eval'', ''test'']) [''train'', ''eval'', ''test''] = [''train'']"
  by (simp add: StatisticsGen_init_def resolve_alias_def default_output_def default_args_def
        examples_channel_def state_with_def get_def output_split_names_def
        channel_split_names_def split_names_of_def exclude_loop.simps)


text \<open>
  C3: if the output channel is given, the \<^verbatim>\<open>statistics\<close> field of the assembled spec is
  that channel, and the derivation does not run: the call returns a spec whatever the
  examples channel holds (no artifact is read, so no inspection error can arise), and no
  split-name sequence is changed.
\<close>

theorem explicit_output_used_verbatim:
  assumes "arg_output a = Some c"
  shows "(\<exists>sp. fst (StatisticsGen_init to_json a st) = Inr (sp, arg_instance_name a)
            \<and> statistics sp = c)
     \<and> heap (snd (StatisticsGen_init to_json a st)) = heap st"
  by (simp add: init_explicit_output [OF assms] resolve_alias_heap)

theorem explicit_output_used_verbatim_witness:
  "arg_output (default_args\<lparr>arg_examples := Some (examples_channel 0 0),
                            arg_exclude_splits := Some [''train''],
                            arg_output := Some (examples_channel 2 1)\<rparr> :: string init_args)
     = Some (examples_channel 2 1)
   \<and> (\<exists>sp. fst (StatisticsGen_init (\<lambda>s. s)
               (default_args\<lparr>arg_examples := Some (examples_channel 0 0),
                             arg_exclude_splits := Some [''train''],
                             arg_output := Some (examples_channel 2 1)\<rparr>)
               (state_with 1 [''train'', ''eval''])) = Inr (sp, None)
          \<and> statistics sp = examples_channel 2 1)
   \<and> heap (snd (StatisticsGen_init (\<lambda>s. s)
               (default_args\<lparr>arg_examples := Some (examples_channel 0 0),
                             arg_exclude_splits := Some [''train''],
                             arg_output := Some (examples_channel 2 1)\<rparr>)
               (state_with 1 [''train'', ''eval''])))
      = heap (state_with 1 [''train'', ''eval''])"
proof -
  let ?a = "default_args\<lparr>arg_examples := Some (examples_channel 0 0),
                         arg_exclude_splits := Some [''train''],
                         arg_output := Some (examples_channel 2 1)\<rparr> :: string init_args"
  have h1: "arg_output ?a = Some (examples_channel 2 1)"
    by simp
  have n: "arg_instance_name ?a = None"
    by (simp add: default_args_def)
  show ?thesis
    using explicit_output_used_verbatim [OF h1, of "\<lambda>s. s" "state_with 1 [''train'', ''eval'']"] h1
    by (simp only: n simp_thms)
qed

text \<open>
  C4, as amended: if \<^verbatim>\<open>input_data\<close> is given and \<^verbatim>\<open>examples\<close> is not, exactly one
  deprecation warning is added to the log and the alias step raises nothing. The call
  then returns a spec whose \<^verbatim>\<open>examples\<close> field is the value of \<^verbatim>\<open>input_data\<close>
  whenever an output channel is given or the channel holds exactly one artifact. With no
  output channel and any other number of artifacts it raises the cardinality error of
  channel inspection.
\<close>

theorem legacy_alias_resolved:
  assumes "arg_input_data a = Some c"
    and "arg_examples a = None"
  shows "warnings (snd (StatisticsGen_init to_json a st)) = warnings st @ [deprecation_warning]
     \<and> (arg_output a \<noteq> None \<or> length (get c) = 1 \<longrightarrow>
          (\<exists>sp. fst (StatisticsGen_init to_json a st) = Inr (sp, arg_instance_name a)
             \<and> examples sp = Some c))
     \<and> (arg_output a = None \<and> length (get c) \<noteq> 1 \<longrightarrow>
          fst (StatisticsGen_init to_json a st) = Inl CardinalityError)"
proof (intro conjI impI)
  show "warnings (snd (StatisticsGen_init to_json a st)) = warnings st @ [deprecation_warning]"
    by (rule init_result_with_alias(1) [OF assms(1)])
next
  assume "arg_output a \<noteq> None \<or> length (get c) = 1"
  then obtain sp where sp: "fst (StatisticsGen_init to_json a st) = Inr (sp, arg_instance_name a)"
    using init_result_with_alias(3) [OF assms(1), of to_json st] by blast
  then have "examples sp = Some c"
    by (rule init_result_with_alias(2) [OF assms(1)])
  with sp show "\<exists>sp. fst (StatisticsGen_init to_json a st) = Inr (sp, arg_instance_name a)
                  \<and> examples sp = Some c"
    by blast
next
  assume "arg_output a = None \<and> length (get c) \<noteq> 1"
  then show "fst (StatisticsGen_init to_json a st) = Inl CardinalityError"
    using init_result_with_alias(4) [OF assms(1), of to_json st] by blast
qed

theorem legacy_alias_resolved_witness:
  "arg_input_data (default_args\<lparr>arg_input_data := Some (examples_channel 1 0)\<rparr> :: string init_args)
     = Some (examples_channel 1 0)
   \<and> arg_examples (default_args\<lparr>arg_input_data := Some (examples_channel 1 0)\<rparr> :: string init_args)
     = None
   \<and> length (get (examples_channel 1 0)) = 1
   \<and> warnings (snd (StatisticsGen_init (\<lambda>s. s)
        (default_args\<lparr>arg_input_data := Some (examples_channel 1 0)\<rparr>)
        (state_with 0 [''train'', ''eval'']))) = [deprecation_warning]
   \<and> (\<exists>sp. fst (StatisticsGen_init (\<lambda>s. s)
        (default_args\<lparr>arg_input_data := Some (examples_channel 1 0)\<rparr>)
        (state_with 0 [''train'', ''eval''])) = Inr (sp, None)
        \<and> examples sp = Some (examples_channel 1 0))"
proof -
  let ?a = "default_args\<lparr>arg_input_data := Some (examples_channel 1 0)\<rparr> :: string init_args"
  let ?st = "state_with 0 [''train'', ''eval'']"
  have h1: "arg_input_data ?a = Some (examples_channel 1 0)"
    by simp
  have h2: "arg_examples ?a = None"
    by (simp add: default_args_def)
  have l: "length (get (examples_channel 1 0)) = 1"
    by (simp add: get_def examples_channel_def)
  have n: "arg_instance_name ?a = None"
    by (simp add: default_args_def)
  have w: "warnings ?st = []"
    by (simp add: state_with_def)
  note t = legacy_alias_resolved [OF h1 h2, of "\<lambda>s. s" ?st]
  have c1: "warnings (snd (StatisticsGen_init (\<lambda>s. s) ?a ?st)) = [deprecation_warning]"
    using t w by simp
  have c2: "\<exists>sp. fst (StatisticsGen_init (\<lambda>s. s) ?a ?st) = Inr (sp, None)
              \<and> examples sp = Some (examples_channel 1 0)"
    using t l n by (simp only: simp_thms)
  show ?thesis
    by (intro conjI h1 h2 l c1 c2)
qed

text \<open>
  C4 as stated, that construction succeeds whenever \<^verbatim>\<open>input_data\<close> is given and
  \<^verbatim>\<open>examples\<close> is not, fails: with an \<^verbatim>\<open>input_data\<close> channel that holds no artifact
  and no output channel, the call raises the cardinality error.
\<close>

theorem legacy_alias_construction_fails:
  "arg_input_data (default_args\<lparr>arg_input_data := Some (examples_channel 0 0)\<rparr> :: string init_args)
     = Some (examples_channel 0 0)
   \<and> arg_examples (default_args\<lparr>arg_input_data := Some (examples_channel 0 0)\<rparr> :: string init_args)
     = None
   \<and> fst (StatisticsGen_init (\<lambda>s. s)
            (default_args\<lparr>arg_input_data := Some (examples_channel 0 0)\<rparr>)
            (state_with 0 [])) = Inl CardinalityError"
  by (simp add: StatisticsGen_init_def resolve_alias_def default_output_def default_args_def
        examples_channel_def get_def)

text \<open>
  C5: in the spec a call assembles, the \<^verbatim>\<open>stats_options_json\<close> field is \<^verbatim>\<open>None\<close> if
  \<^verbatim>\<open>stats_options\<close> was omitted, and the \<^verbatim>\<open>to_json\<close> form of the options object if
  one was given.
\<close>

theorem stats_options_serialised:
  assumes "fst (StatisticsGen_init to_json a st) = Inr (sp, nm)"
  shows "(arg_stats_options a = None \<longrightarrow> stats_options_json sp = None)
     \<and> (\<forall>so. arg_stats_options a = Some so \<longrightarrow> stats_options_json sp = Some (to_json so))"
proof -
  have "stats_options_json sp = map_option to_json (arg_stats_options a)"
    using init_success(1) [OF assms] by (metis spec.select_convs(3))
  then show ?thesis
    by simp
qed

theorem stats_options_serialised_witness:
  "(\<exists>sp nm. fst (StatisticsGen_init (\<lambda>s. ''json:'' @ s)
                 (default_args\<lparr>arg_examples := Some (examples_channel 1 0)\<rparr>)
                 (state_with 0 [''train'', ''eval''])) = Inr (sp, nm)
            \<and> stats_options_json sp = None)
   \<and> (\<exists>sp nm. fst (StatisticsGen_init (\<lambda>s. ''json:'' @ s)
                 (default_args\<lparr>arg_examples := Some (examples_channel 1 0),
                               arg_stats_options := Some ''opts''\<rparr>)
                 (state_with 0 [''train'', ''eval''])) = Inr (sp, nm)
            \<and> stats_options_json sp = Some ''json:opts'')"
proof -
  let ?f = "\<lambda>s. ''json:'' @ s"
  let ?a = "default_args\<lparr>arg_examples := Some (examples_channel 1 0)\<rparr> :: string init_args"
  let ?b = "default_args\<lparr>arg_examples := Some (examples_channel 1 0),
                         arg_stats_options := Some ''opts''\<rparr> :: string init_args"
  let ?st = "state_with 0 [''train'', ''eval'']"
  let ?art = "\<lparr>type_name = ''Examples'', split_names = 0\<rparr>"
  have a1: "arg_output ?a = None" and b1: "arg_output ?b = None"
    by (simp_all add: default_args_def)
  have a2: "fst (resolve_alias (arg_examples ?a) (arg_input_data ?a) ?st)
            = Some (examples_channel 1 0)"
    and b2: "fst (resolve_alias (arg_examples ?b) (arg_input_data ?b) ?st)
            = Some (examples_channel 1 0)"
    by (simp_all add: default_args_def resolve_alias_def)
  have h3: "get (examples_channel 1 0) = [?art]"
    by (simp add: get_def examples_channel_def)
  have "\<exists>sp nm. fst (StatisticsGen_init ?f ?a ?st) = Inr (sp, nm)"
    unfolding init_derived [OF a1 a2 h3] fst_conv by blast
  then obtain spa nma where ra: "fst (StatisticsGen_init ?f ?a ?st) = Inr (spa, nma)"
    by blast
  have "\<exists>sp nm. fst (StatisticsGen_init ?f ?b ?st) = Inr (sp, nm)"
    unfolding init_derived [OF b1 b2 h3] fst_conv by blast
  then obtain spb nmb where rb: "fst (StatisticsGen_init ?f ?b ?st) = Inr (spb, nmb)"
    by blast
  have na: "arg_stats_options ?a = None"
    by (simp add: default_args_def)
  have nb: "arg_stats_options ?b = Some ''opts''"
    by simp
  have "stats_options_json spa = None"
    using stats_options_serialised [OF ra] na by (simp only: simp_thms)
  moreover have "stats_options_json spb = Some ''json:opts''"
    using stats_options_serialised [OF rb] nb by simp
  ultimately show ?thesis
    using ra rb by blast
qed

text \<open>
  C6: with no output channel given and an examples channel \<open>ex\<close>, the call fails if and
  only if \<open>ex\<close> does not hold exactly one artifact, and the error it fails with is the
  one \<^verbatim>\<open>get_single_instance\<close> raised, with no split-name sequence changed.
\<close>

theorem cardinality_error_propagates:
  assumes "arg_output a = None"
    and "fst (resolve_alias (arg_examples a) (arg_input_data a) st) = Some ex"
  shows "((\<exists>e. fst (StatisticsGen_init to_json a st) = Inl e) \<longleftrightarrow> length (get ex) \<noteq> 1)
     \<and> (\<forall>e. get_single_instance (get ex) = Inl e \<longrightarrow>
           fst (StatisticsGen_init to_json a st) = Inl e
           \<and> heap (snd (StatisticsGen_init to_json a st)) = heap st)"
proof (cases "get_single_instance (get ex)")
  case (Inl e)
  have run: "StatisticsGen_init to_json a st =
             (Inl e, snd (resolve_alias (arg_examples a) (arg_input_data a) st))"
    by (rule init_inspection_error [OF assms Inl])
  have "length (get ex) \<noteq> 1"
    using Inl get_single_instance_error [of "get ex"] by blast
  then show ?thesis
    by (simp add: run Inl resolve_alias_heap)
next
  case (Inr art)
  then have one: "get ex = [art]"
    by (simp only: get_single_instance_one)
  have "\<exists>sp nm. fst (StatisticsGen_init to_json a st) = Inr (sp, nm)"
    by (simp add: init_derived [OF assms one])
  then have "\<not> (\<exists>e. fst (StatisticsGen_init to_json a st) = Inl e)"
    by auto
  then show ?thesis
    using Inr one by simp
qed

theorem cardinality_error_propagates_witness:
  "arg_output (default_args\<lparr>arg_examples := Some (examples_channel 2 0)\<rparr> :: string init_args) = None
   \<and> length (get (examples_channel 2 0)) \<noteq> 1
   \<and> get_single_instance (get (examples_channel 2 0)) = Inl CardinalityError
   \<and> fst (StatisticsGen_init (\<lambda>s. s)
            (default_args\<lparr>arg_examples := Some (examples_channel 2 0)\<rparr>)
            (state_with 0 [''train'', ''eval''])) = Inl CardinalityError
   \<and> length (get (examples_channel 1 0)) = 1
   \<and> \<not> (\<exists>e. fst (StatisticsGen_init (\<lambda>s. s)
            (default_args\<lparr>arg_examples := Some (examples_channel 1 0)\<rparr>)
            (state_with 0 [''train'', ''eval''])) = Inl e)"
proof -
  let ?a = "default_args\<lparr>arg_examples := Some (examples_channel 2 0)\<rparr> :: string init_args"
  let ?b = "default_args\<lparr>arg_examples := Some (examples_channel 1 0)\<rparr> :: string init_args"
  let ?st = "state_with 0 [''train'', ''eval'']"
  have a1: "arg_output ?a = None" and b1: "arg_output ?b = None"
    by (simp_all add: default_args_def)
  have a2: "fst (resolve_alias (arg_examples ?a) (arg_input_data ?a) ?st)
            = Some (examples_channel 2 0)"
    and b2: "fst (resolve_alias (arg_examples ?b) (arg_input_data ?b) ?st)
            = Some (examples_channel 1 0)"
    by (simp_all add: default_args_def resolve_alias_def)
  have l2: "length (get (examples_channel 2 0)) \<noteq> 1"
    and l1: "length (get (examples_channel 1 0)) = 1"
    by (simp_all add: get_def examples_channel_def)
  have g: "get_single_instance (get (examples_channel 2 0)) = Inl CardinalityError"
    by (simp add: get_def examples_channel_def numeral_2_eq_2)
  note ta = cardinality_error_propagates [OF a1 a2, of "\<lambda>s. s"]
  note tb = cardinality_error_propagates [OF b1 b2, of "\<lambda>s. s"]
  have fa: "fst (StatisticsGen_init (\<lambda>s. s) ?a ?st) = Inl CardinalityError"
    using ta g by blast
  have fb: "\<not> (\<exists>e. fst (StatisticsGen_init (\<lambda>s. s) ?b ?st) = Inl e)"
    using tb l1 by blast
  show ?thesis
    by (intro conjI a1 l2 g fa l1 fb)
qed

text \<open>
  C9: if both \<^verbatim>\<open>examples\<close> and \<^verbatim>\<open>input_data\<close> are given, the deprecation warning is
  logged, the \<^verbatim>\<open>examples\<close> field of an assembled spec is the value of
  \<^verbatim>\<open>input_data\<close>, and the \<^verbatim>\<open>examples\<close> argument has no influence at all: the call
  behaves the same with any other value in its place. The last conjunct says when a spec
  is assembled.
\<close>

theorem input_data_takes_precedence:
  assumes "arg_examples a = Some c0"
    and "arg_input_data a = Some c"
  shows "warnings (snd (StatisticsGen_init to_json a st)) = warnings st @ [deprecation_warning]
     \<and> (\<forall>sp nm. fst (StatisticsGen_init to_json a st) = Inr (sp, nm) \<longrightarrow> examples sp = Some c)
     \<and> (\<forall>e0. StatisticsGen_init to_json (a\<lparr>arg_examples := e0\<rparr>) st
               = StatisticsGen_init to_json a st)
     \<and> ((\<exists>sp. fst (StatisticsGen_init to_json a st) = Inr (sp, arg_instance_name a))
          \<longleftrightarrow> arg_output a \<noteq> None \<or> length (get c) = 1)"
proof (intro conjI allI impI)
  show "warnings (snd (StatisticsGen_init to_json a st)) = warnings st @ [deprecation_warning]"
    by (rule init_result_with_alias(1) [OF assms(2)])
next
  fix sp nm
  assume "fst (StatisticsGen_init to_json a st) = Inr (sp, nm)"
  then show "examples sp = Some c"
    by (rule init_result_with_alias(2) [OF assms(2)])
next
  fix e0
  show "StatisticsGen_init to_json (a\<lparr>arg_examples := e0\<rparr>) st = StatisticsGen_init to_json a st"
    by (simp add: StatisticsGen_init_def assms(2) resolve_alias_given
          split: prod.splits sum.splits)
next
  show "(\<exists>sp. fst (StatisticsGen_init to_json a st) = Inr (sp, arg_instance_name a))
          \<longleftrightarrow> arg_output a \<noteq> None \<or> length (get c) = 1"
    by (rule init_result_with_alias(3) [OF assms(2)])
qed

theorem input_data_takes_precedence_witness:
  "arg_examples (default_args\<lparr>arg_examples := Some (examples_channel 1 0),
                              arg_input_data := Some (examples_channel 1 1)\<rparr> :: string init_args)
     = Some (examples_channel 1 0)
   \<and> arg_input_data (default_args\<lparr>arg_examples := Some (examples_channel 1 0),
                              arg_input_data := Some (examples_channel 1 1)\<rparr> :: string init_args)
     = Some (examples_channel 1 1)
   \<and> examples_channel 1 0 \<noteq> examples_channel 1 1
   \<and> warnings (snd (StatisticsGen_init (\<lambda>s. s)
        (default_args\<lparr>arg_examples := Some (examples_channel 1 0),
                      arg_input_data := Some (examples_channel 1 1)\<rparr>)
        (state_with 1 [''train'', ''eval'']))) = [deprecation_warning]
   \<and> (\<exists>sp. fst (StatisticsGen_init (\<lambda>s. s)
        (default_args\<lparr>arg_examples := Some (examples_channel 1 0),
                      arg_input_data := Some (examples_channel 1 1)\<rparr>)
        (state_with 1 [''train'', ''eval''])) = Inr (sp, None)
        \<and> examples sp = Some (examples_channel 1 1))"
proof -
  let ?a = "default_args\<lparr>arg_examples := Some (examples_channel 1 0),
                         arg_input_data := Some (examples_channel 1 1)\<rparr> :: string init_args"
  let ?st = "state_with 1 [''train'', ''eval'']"
  let ?run = "StatisticsGen_init (\<lambda>s. s) ?a ?st"
  have h1: "arg_examples ?a = Some (examples_channel 1 0)"
    by simp
  have h2: "arg_input_data ?a = Some (examples_channel 1 1)"
    by simp
  have d: "examples_channel 1 0 \<noteq> examples_channel 1 1"
    by (simp add: examples_channel_def)
  have l: "length (get (examples_channel 1 1)) = 1"
    by (simp add: get_def examples_channel_def)
  have n: "arg_instance_name ?a = None"
    by (simp add: default_args_def)
  have w: "warnings ?st = []"
    by (simp add: state_with_def)
  note t = input_data_takes_precedence [OF h1 h2, of "\<lambda>s. s" ?st]
  have c1: "warnings (snd ?run) = [deprecation_warning]"
    using t w by simp
  have "\<exists>sp. fst ?run = Inr (sp, None)"
    using t l n by (simp only: simp_thms)
  then obtain sp where sp: "fst ?run = Inr (sp, None)"
    by blast
  then have "examples sp = Some (examples_channel 1 1)"
    using t by blast
  with sp have c2: "\<exists>sp. fst ?run = Inr (sp, None) \<and> examples sp = Some (examples_channel 1 1)"
    by blast
  show ?thesis
    by (intro conjI h1 h2 d c1 c2)
qed

end
